theory Spec2Isabelle
  imports Main
begin

section \<open>saba-docker-io: the attach bridge of \<^verbatim>\<open>src/docker/saba-docker-io/main.go\<close>\<close>

text \<open>
  The bridge is one Go function, \<^verbatim>\<open>main\<close>. It reads \<^verbatim>\<open>os.Args\<close>, runs
  \<^verbatim>\<open>docker logs\<close> as a child process and waits for it, resolves the runtime with
  \<^verbatim>\<open>exec.LookPath\<close>, and hands the process over with \<^verbatim>\<open>syscall.Exec\<close>.
  Everything it does is a call into the operating system, so the model makes the
  operating system a parameter (the record \<open>world\<close>: what each call answers) and returns
  what an observer of the process sees: the calls and writes in program order (a list of
  \<open>event\<close>) and the way the process ends (an \<open>outcome\<close>).
\<close>

subsection \<open>Data\<close>

text \<open>A Go \<^verbatim>\<open>error\<close> is carried as the text \<^verbatim>\<open>%v\<close> prints for it.\<close>

type_synonym error = string

text \<open>The three standard streams of the bridge: \<^verbatim>\<open>os.Stdin\<close>, \<^verbatim>\<open>os.Stdout\<close>, \<^verbatim>\<open>os.Stderr\<close>.\<close>

datatype os_File = os_Stdin | os_Stdout | os_Stderr

text \<open>
  \<^verbatim>\<open>exec.Cmd\<close>, with the fields the bridge touches and the two that
  \<^verbatim>\<open>exec.Command\<close> fills in: \<^verbatim>\<open>Path\<close>, the file the child is run from, and \<^verbatim>\<open>Err\<close>,
  the error of a failed lookup, which \<^verbatim>\<open>Start\<close> returns. A stream left \<^verbatim>\<open>nil\<close>
  (\<open>None\<close>) is connected to the null device by \<^verbatim>\<open>os/exec\<close>.
\<close>

record Cmd =
  Cmd_Path :: string
  Cmd_Args :: "string list"
  Cmd_Stdin :: "os_File option"
  Cmd_Stdout :: "os_File option"
  Cmd_Stderr :: "os_File option"
  Cmd_Err :: "error option"

text \<open>
  A call into the operating system that blocks either returns a value or never returns.
\<close>

datatype 'a call = Returns 'a | Never_returns

text \<open>
  What the operating system answers:
  \<^item> \<open>Environ\<close>: \<^verbatim>\<open>os.Environ()\<close>, the environment of the bridge;
  \<^item> \<open>LookPath\<close>: \<^verbatim>\<open>exec.LookPath(file)\<close>, with both of its results, the path and the
    error (\<open>None\<close> for \<^verbatim>\<open>nil\<close>); a path can come together with an error, as it does
    for a file found through a relative directory of the search path;
  \<^item> \<open>Start\<close>: \<^verbatim>\<open>(*Cmd).Start\<close>; \<open>Some err\<close> when no child could be started, which
    includes a \<^verbatim>\<open>Cmd\<close> whose \<^verbatim>\<open>Err\<close> is set: \<^verbatim>\<open>Start\<close> returns that error;
  \<^item> \<open>Wait\<close>: \<^verbatim>\<open>(*Cmd).Wait\<close>, which blocks until the child has exited; \<open>Never_returns\<close>
    for a child that never exits, \<open>Returns (Some err)\<close> for a non-zero exit status;
  \<^item> \<open>Exec\<close>: \<^verbatim>\<open>syscall.Exec(argv0, argv, envv)\<close>; \<open>None\<close> when the process image was
    replaced (the call does not return), \<open>Some err\<close> when it failed and returned.
\<close>

record world =
  Environ :: "string list"
  LookPath :: "string \<Rightarrow> string \<times> error option"
  Start :: "Cmd \<Rightarrow> error option"
  Wait :: "Cmd \<Rightarrow> error option call"
  Exec :: "string \<Rightarrow> string list \<Rightarrow> string list \<Rightarrow> error option"

text \<open>
  What the bridge does, in program order: its writes, the call of \<^verbatim>\<open>Start\<close> on a
  command (\<open>Spawn\<close>), the return of \<^verbatim>\<open>Wait\<close> (\<open>Reaped\<close>), and its own calls of
  \<^verbatim>\<open>exec.LookPath\<close> and \<^verbatim>\<open>syscall.Exec\<close>.
\<close>

datatype event =
    Write os_File string
  | Spawn Cmd
  | Reaped Cmd
  | CallLookPath string
  | CallExec string "string list" "string list"

text \<open>
  How the bridge ends: \<^verbatim>\<open>os.Exit(code)\<close>; the process image replaced by
  \<open>Replaced path argv envv\<close>; or blocked for ever waiting for the log child.
\<close>

datatype outcome =
    Exited int
  | Replaced string "string list" "string list"
  | Blocked

subsection \<open>Constants of the source\<close>

definition defaultDocker :: string where
  "defaultDocker = ''/opt/saba-chan/docker/docker''"

definition initialLogTail :: string where
  "initialLogTail = ''200''"

subsection \<open>The library calls\<close>

text \<open>
  \<^verbatim>\<open>filepath.Base\<close> on Unix: the last element of a path, after the trailing slashes
  are dropped; \<^verbatim>\<open>.\<close> for the empty path and \<^verbatim>\<open>/\<close> for a path of slashes only.
\<close>

definition filepath_Base :: "string \<Rightarrow> string" where
  "filepath_Base path =
     (if path = [] then ''.''
      else
        let stripped = rev (dropWhile (\<lambda>c. c = CHR ''/'') (rev path));
            last_element = rev (takeWhile (\<lambda>c. c \<noteq> CHR ''/'') (rev stripped))
        in if last_element = [] then ''/'' else last_element)"

text \<open>\<^verbatim>\<open>filepath.IsAbs\<close> on Unix: the path starts with a slash.\<close>

definition filepath_IsAbs :: "string \<Rightarrow> bool" where
  "filepath_IsAbs path = (take 1 path = ''/'')"

text \<open>
  \<^verbatim>\<open>exec.Command(name, arg...)\<close> builds a \<^verbatim>\<open>Cmd\<close> whose argument vector starts with
  \<open>name\<close>, with no stream set. A name without a directory
  (\<^verbatim>\<open>filepath.Base(name) == name\<close>) is looked up with \<^verbatim>\<open>exec.LookPath\<close>: a path that
  comes back replaces \<^verbatim>\<open>Path\<close>, an error that comes back is kept in \<^verbatim>\<open>Err\<close>. Any
  other name is the \<^verbatim>\<open>Path\<close> as it stands.
\<close>

definition exec_Command :: "world \<Rightarrow> string \<Rightarrow> string list \<Rightarrow> Cmd" where
  "exec_Command w name arg =
     (let cmd = \<lparr>Cmd_Path = name, Cmd_Args = name # arg,
                 Cmd_Stdin = None, Cmd_Stdout = None, Cmd_Stderr = None, Cmd_Err = None\<rparr>
      in if filepath_Base name = name then
           (case LookPath w name of
              (lp, err) \<Rightarrow>
                (let cmd = (if lp \<noteq> [] then cmd\<lparr>Cmd_Path := lp\<rparr> else cmd)
                 in case err of
                      Some e \<Rightarrow> cmd\<lparr>Cmd_Err := Some e\<rparr>
                    | None \<Rightarrow> cmd))
         else cmd)"

text \<open>
  \<^verbatim>\<open>(*Cmd).Run\<close> is \<^verbatim>\<open>Start\<close> followed by \<^verbatim>\<open>Wait\<close>: a failed start is returned at
  once, otherwise the caller blocks until the child has exited.
\<close>

definition Cmd_Run :: "world \<Rightarrow> Cmd \<Rightarrow> event list \<times> error option call" where
  "Cmd_Run w c =
     (case Start w c of
        Some err \<Rightarrow> ([Spawn c], Returns (Some err))
      | None \<Rightarrow>
          (case Wait w c of
             Never_returns \<Rightarrow> ([Spawn c], Never_returns)
           | Returns r \<Rightarrow> ([Spawn c, Reaped c], Returns r)))"

subsection \<open>The program\<close>

text \<open>Lines 38 to 42: the two parameters taken from \<^verbatim>\<open>os.Args\<close>.\<close>

definition container :: "string list \<Rightarrow> string" where
  "container os_Args = os_Args ! 1"

definition docker :: "string list \<Rightarrow> string" where
  "docker os_Args = (if 3 \<le> length os_Args then os_Args ! 2 else defaultDocker)"

text \<open>Lines 46 to 48: the log command and its two redirected streams.\<close>

definition logs :: "world \<Rightarrow> string list \<Rightarrow> Cmd" where
  "logs w os_Args =
     (exec_Command w (docker os_Args)
        [''logs'', ''--tail'', initialLogTail, ''--timestamps'', container os_Args])
     \<lparr>Cmd_Stdout := Some os_Stdout, Cmd_Stderr := Some os_Stdout\<rparr>"

text \<open>Line 60: the argument vector of the attach invocation.\<close>

definition argv :: "string list \<Rightarrow> string list" where
  "argv os_Args = [docker os_Args, ''attach'', ''--sig-proxy=false'', container os_Args]"

text \<open>
  \<^verbatim>\<open>main\<close>. The result of \<^verbatim>\<open>logs.Run()\<close> is discarded (\<^verbatim>\<open>_ = logs.Run()\<close>); only a
  child that never exits keeps the bridge from going on.
\<close>

definition main :: "world \<Rightarrow> string list \<Rightarrow> event list \<times> outcome" where
  "main w os_Args =
     (if length os_Args < 2 then
        ([Write os_Stderr
            (''Usage: saba-docker-io <container_name> [docker_path]'' @ [CHR 0x0A])],
         Exited 1)
      else
        (case Cmd_Run w (logs w os_Args) of
           (t, Never_returns) \<Rightarrow> (t, Blocked)
         | (t, Returns _) \<Rightarrow>
             (case LookPath w (docker os_Args) of
                (dockerPath, Some err) \<Rightarrow>
                  (t @ [CallLookPath (docker os_Args),
                        Write os_Stderr
                          (''[saba-docker-io] docker not found at '' @ docker os_Args
                             @ '': '' @ err @ [CHR 0x0A])],
                   Exited 2)
              | (dockerPath, None) \<Rightarrow>
                  (case Exec w dockerPath (argv os_Args) (Environ w) of
                     Some err \<Rightarrow>
                       (t @ [CallLookPath (docker os_Args),
                             CallExec dockerPath (argv os_Args) (Environ w),
                             Write os_Stderr
                               (''[saba-docker-io] exec failed: '' @ err @ [CHR 0x0A])],
                        Exited 3)
                   | None \<Rightarrow>
                       (t @ [CallLookPath (docker os_Args),
                             CallExec dockerPath (argv os_Args) (Environ w)],
                        Replaced dockerPath (argv os_Args) (Environ w))))))"

subsection \<open>Reading a trace\<close>

text \<open>
  The steps of the Replay Stage are the start and the reaping of a child; the steps of
  the Live Relay Stage are the lookup of the runtime and the image transfer.
\<close>

fun is_replay :: "event \<Rightarrow> bool" where
  "is_replay (Spawn c) = True"
| "is_replay (Reaped c) = True"
| "is_replay e = False"

fun is_relay :: "event \<Rightarrow> bool" where
  "is_relay (CallLookPath f) = True"
| "is_relay (CallExec p a e) = True"
| "is_relay e = False"

fun is_Spawn :: "event \<Rightarrow> bool" where
  "is_Spawn (Spawn c) = True"
| "is_Spawn e = False"

fun is_CallExec :: "event \<Rightarrow> bool" where
  "is_CallExec (CallExec p a e) = True"
| "is_CallExec e = False"

fun is_Write :: "event \<Rightarrow> bool" where
  "is_Write (Write f s) = True"
| "is_Write e = False"

subsection \<open>Worlds to run the bridge in\<close>

text \<open>
  A host where the runtime sits at the default path, the container has logs and the
  attach succeeds.
\<close>

definition world_ok :: world where
  "world_ok =
     \<lparr>Environ = [''PATH=/usr/bin'', ''HOME=/root''],
      LookPath = (\<lambda>f. if f = ''/opt/saba-chan/docker/docker'' then (f, None)
                       else if f = ''docker'' then (''/usr/bin/docker'', None)
                       else ([], Some (''exec: '' @ [CHR 0x22] @ f @ [CHR 0x22]
                                         @ '': executable file not found in $PATH''))),
      Start = (\<lambda>c. Cmd_Err c),
      Wait = (\<lambda>c. Returns None),
      Exec = (\<lambda>p a e. None)\<rparr>"

text \<open>The same host with a container that does not exist: the log command exits with 1.\<close>

definition world_no_container :: world where
  "world_no_container = world_ok\<lparr>Wait := (\<lambda>c. Returns (Some ''exit status 1''))\<rparr>"

text \<open>A host without any runtime: no child can be started and the lookup fails.\<close>

definition world_no_runtime :: world where
  "world_no_runtime =
     world_ok\<lparr>LookPath := (\<lambda>f. ([], Some (''exec: '' @ [CHR 0x22] @ f @ [CHR 0x22] @ '': stat ''
                                           @ f @ '': no such file or directory''))),
              Start := (\<lambda>c. case Cmd_Err c of
                               Some e \<Rightarrow> Some e
                             | None \<Rightarrow> Some (''fork/exec '' @ Cmd_Path c
                                               @ '': no such file or directory''))\<rparr>"

text \<open>A host where the runtime is found and the image transfer is refused.\<close>

definition world_exec_fails :: world where
  "world_exec_fails = world_ok\<lparr>Exec := (\<lambda>p a e. Some ''permission denied'')\<rparr>"

text \<open>
  A host where the bridge is started in the directory that holds the runtime: a name with
  a slash in it is tried as it stands, and \<^verbatim>\<open>exec.LookPath\<close> gives it back unchanged.
\<close>

definition world_cwd :: world where
  "world_cwd =
     world_ok\<lparr>LookPath := (\<lambda>f. if f = ''./docker'' then (f, None) else LookPath world_ok f)\<rparr>"

section \<open>The library calls\<close>

text \<open>
  \<^verbatim>\<open>filepath.Base(name) == name\<close> holds of the names without a slash, and of \<^verbatim>\<open>/\<close>.
\<close>

lemma filepath_Base_fixed:
  "filepath_Base name = name \<longleftrightarrow> (name \<noteq> [] \<and> CHR ''/'' \<notin> set name) \<or> name = ''/''"
proof
  assume fixed: "filepath_Base name = name"
  show "(name \<noteq> [] \<and> CHR ''/'' \<notin> set name) \<or> name = ''/''"
  proof (cases "name = []")
    case True
    with fixed show ?thesis by (simp add: filepath_Base_def)
  next
    case False
    let ?s = "rev (dropWhile (\<lambda>c. c = CHR ''/'') (rev name))"
    let ?l = "rev (takeWhile (\<lambda>c. c \<noteq> CHR ''/'') (rev ?s))"
    show ?thesis
    proof (cases "?l = []")
      case True
      with fixed False show ?thesis by (simp add: filepath_Base_def Let_def)
    next
      case nonempty: False
      with fixed False have "name = ?l" by (simp add: filepath_Base_def Let_def)
      moreover have "CHR ''/'' \<notin> set ?l" by (auto dest: set_takeWhileD)
      ultimately have "CHR ''/'' \<notin> set name" by metis
      with False show ?thesis by simp
    qed
  qed
next
  assume "(name \<noteq> [] \<and> CHR ''/'' \<notin> set name) \<or> name = ''/''"
  then show "filepath_Base name = name"
  proof
    assume bare: "name \<noteq> [] \<and> CHR ''/'' \<notin> set name"
    then have dw: "dropWhile (\<lambda>c. c = CHR ''/'') (rev name) = rev name"
      by (cases "rev name") auto
    from bare have tw: "takeWhile (\<lambda>c. c \<noteq> CHR ''/'') (rev name) = rev name"
      by (auto intro: takeWhile_eq_all_conv[THEN iffD2])
    from bare show ?thesis by (simp add: filepath_Base_def Let_def dw tw)
  next
    assume "name = ''/''"
    then show ?thesis by (simp add: filepath_Base_def)
  qed
qed

text \<open>The log command, field by field.\<close>

lemma logs_eq:
  "logs w a =
     \<lparr>Cmd_Path =
        (if filepath_Base (docker a) = docker a \<and> fst (LookPath w (docker a)) \<noteq> []
         then fst (LookPath w (docker a)) else docker a),
      Cmd_Args = [docker a, ''logs'', ''--tail'', ''200'', ''--timestamps'', a ! 1],
      Cmd_Stdin = None,
      Cmd_Stdout = Some os_Stdout,
      Cmd_Stderr = Some os_Stdout,
      Cmd_Err = (if filepath_Base (docker a) = docker a then snd (LookPath w (docker a)) else None)\<rparr>"
  by (cases "LookPath w (docker a)")
     (auto simp: logs_def exec_Command_def Let_def initialLogTail_def container_def
           split: option.splits)

text \<open>The log command does not depend on what \<^verbatim>\<open>Start\<close> and \<^verbatim>\<open>Wait\<close> answer.\<close>

lemma logs_Start_Wait: "logs (w\<lparr>Start := s, Wait := b\<rparr>) a = logs w a"
  by (simp add: logs_eq)

section \<open>The runs of the bridge\<close>

text \<open>One lemma for each way through \<^verbatim>\<open>main\<close>.\<close>

lemma main_usage: "length a < 2 \<Longrightarrow> main w a =
  ([Write os_Stderr (''Usage: saba-docker-io <container_name> [docker_path]'' @ [CHR 0x0A])], Exited 1)"
  by (simp add: main_def)

lemma main_blocked:
  "2 \<le> length a \<Longrightarrow> Cmd_Run w (logs w a) = (t, Never_returns) \<Longrightarrow> main w a = (t, Blocked)"
  by (simp add: main_def)

lemma main_not_found:
  "2 \<le> length a \<Longrightarrow> Cmd_Run w (logs w a) = (t, Returns r) \<Longrightarrow> LookPath w (docker a) = (lp, Some err) \<Longrightarrow>
   main w a =
     (t @ [CallLookPath (docker a),
           Write os_Stderr (''[saba-docker-io] docker not found at '' @ docker a @ '': '' @ err @ [CHR 0x0A])],
      Exited 2)"
  by (simp add: main_def)

lemma main_exec_failed:
  "2 \<le> length a \<Longrightarrow> Cmd_Run w (logs w a) = (t, Returns r) \<Longrightarrow> LookPath w (docker a) = (p, None) \<Longrightarrow>
   Exec w p (argv a) (Environ w) = Some err \<Longrightarrow>
   main w a =
     (t @ [CallLookPath (docker a), CallExec p (argv a) (Environ w),
           Write os_Stderr (''[saba-docker-io] exec failed: '' @ err @ [CHR 0x0A])],
      Exited 3)"
  by (simp add: main_def)

lemma main_replaced:
  "2 \<le> length a \<Longrightarrow> Cmd_Run w (logs w a) = (t, Returns r) \<Longrightarrow> LookPath w (docker a) = (p, None) \<Longrightarrow>
   Exec w p (argv a) (Environ w) = None \<Longrightarrow>
   main w a =
     (t @ [CallLookPath (docker a), CallExec p (argv a) (Environ w)],
      Replaced p (argv a) (Environ w))"
  by (simp add: main_def)

lemma Cmd_Run_cases:
  obtains (start_failed) err where "Start w c = Some err" "Cmd_Run w c = ([Spawn c], Returns (Some err))"
  | (hangs) "Start w c = None" "Wait w c = Never_returns" "Cmd_Run w c = ([Spawn c], Never_returns)"
  | (exited) r where "Start w c = None" "Wait w c = Returns r" "Cmd_Run w c = ([Spawn c, Reaped c], Returns r)"
  by (cases "Start w c"; cases "Wait w c") (auto simp: Cmd_Run_def)

lemma Cmd_Run_trace:
  "Cmd_Run w c = (t, r) \<Longrightarrow> t = [Spawn c] \<or> t = [Spawn c, Reaped c]"
  by (cases w c rule: Cmd_Run_cases) auto

text \<open>The five ways a run can go.\<close>

lemma main_cases:
  obtains (usage) "length a < 2"
      "main w a = ([Write os_Stderr (''Usage: saba-docker-io <container_name> [docker_path]'' @ [CHR 0x0A])], Exited 1)"
  | (blocked) t where "2 \<le> length a" "Cmd_Run w (logs w a) = (t, Never_returns)" "main w a = (t, Blocked)"
  | (not_found) t r lp err where "2 \<le> length a" "Cmd_Run w (logs w a) = (t, Returns r)"
      "LookPath w (docker a) = (lp, Some err)"
      "main w a =
        (t @ [CallLookPath (docker a),
              Write os_Stderr (''[saba-docker-io] docker not found at '' @ docker a @ '': '' @ err @ [CHR 0x0A])],
         Exited 2)"
  | (exec_failed) t r p err where "2 \<le> length a" "Cmd_Run w (logs w a) = (t, Returns r)"
      "LookPath w (docker a) = (p, None)" "Exec w p (argv a) (Environ w) = Some err"
      "main w a =
        (t @ [CallLookPath (docker a), CallExec p (argv a) (Environ w),
              Write os_Stderr (''[saba-docker-io] exec failed: '' @ err @ [CHR 0x0A])],
         Exited 3)"
  | (replaced) t r p where "2 \<le> length a" "Cmd_Run w (logs w a) = (t, Returns r)"
      "LookPath w (docker a) = (p, None)" "Exec w p (argv a) (Environ w) = None"
      "main w a =
        (t @ [CallLookPath (docker a), CallExec p (argv a) (Environ w)],
         Replaced p (argv a) (Environ w))"
proof (cases "length a < 2")
  case True
  then show ?thesis using usage main_usage by blast
next
  case False
  then have len: "2 \<le> length a" by simp
  obtain t r where run: "Cmd_Run w (logs w a) = (t, r)"
    by (cases "Cmd_Run w (logs w a)")
  show ?thesis
  proof (cases r)
    case Never_returns
    with len run show ?thesis using blocked main_blocked by blast
  next
    case (Returns x)
    note ret = run[unfolded Returns]
    show ?thesis
    proof (cases "LookPath w (docker a)")
      case (Pair p e)
      show ?thesis
      proof (cases e)
        case (Some err)
        with len ret Pair show ?thesis using not_found main_not_found by blast
      next
        case None
        note look = Pair[unfolded None]
        show ?thesis
        proof (cases "Exec w p (argv a) (Environ w)")
          case None
          with len ret look show ?thesis using replaced main_replaced by blast
        next
          case (Some err)
          with len ret look show ?thesis using exec_failed main_exec_failed by blast
        qed
      qed
    qed
  qed
qed

text \<open>What \<^verbatim>\<open>logs.Run()\<close> can and cannot put on the trace.\<close>

lemma Cmd_Run_no_exec: "Cmd_Run w c = (t, r) \<Longrightarrow> filter is_CallExec t = []"
  by (drule Cmd_Run_trace) auto

lemma Cmd_Run_no_write: "Cmd_Run w c = (t, r) \<Longrightarrow> e \<in> set t \<Longrightarrow> \<not> is_Write e"
  by (drule Cmd_Run_trace) auto

section \<open>The Live Relay Stage\<close>

text \<open>
  Claim C1. Once \<^verbatim>\<open>logs.Run()\<close> has returned and \<^verbatim>\<open>exec.LookPath\<close> has resolved the
  runtime to \<open>p\<close>, the bridge makes exactly one image-transfer call: it executes \<open>p\<close> with
  the argument vector runtime, \<^verbatim>\<open>attach\<close>, \<^verbatim>\<open>--sig-proxy=false\<close>, container, and with
  \<^verbatim>\<open>os.Environ()\<close> as the environment; when the operating system accepts the call, the
  process has become that image.
\<close>
theorem attach_image_transfer:
  assumes "2 \<le> length a"
    and "Cmd_Run w (logs w a) = (t, Returns r)"
    and "LookPath w (docker a) = (p, None)"
  shows "filter is_CallExec (fst (main w a)) =
           [CallExec p [docker a, ''attach'', ''--sig-proxy=false'', a ! 1] (Environ w)]
       \<and> (Exec w p [docker a, ''attach'', ''--sig-proxy=false'', a ! 1] (Environ w) = None \<longrightarrow>
            snd (main w a) =
              Replaced p [docker a, ''attach'', ''--sig-proxy=false'', a ! 1] (Environ w))"
proof -
  have av: "argv a = [docker a, ''attach'', ''--sig-proxy=false'', a ! 1]"
    by (simp add: argv_def container_def)
  have quiet: "filter is_CallExec t = []"
    using assms(2) by (rule Cmd_Run_no_exec)
  show ?thesis
  proof (cases "Exec w p (argv a) (Environ w)")
    case None
    from main_replaced[OF assms None] quiet show ?thesis by (simp add: av)
  next
    case (Some err)
    from main_exec_failed[OF assms Some] quiet Some show ?thesis by (simp add: av)
  qed
qed

theorem attach_image_transfer_witness:
  "filter is_CallExec (fst (main world_ok [''saba-docker-io'', ''mc''])) =
     [CallExec ''/opt/saba-chan/docker/docker''
        [''/opt/saba-chan/docker/docker'', ''attach'', ''--sig-proxy=false'', ''mc'']
        [''PATH=/usr/bin'', ''HOME=/root'']]
   \<and> snd (main world_ok [''saba-docker-io'', ''mc'']) =
       Replaced ''/opt/saba-chan/docker/docker''
        [''/opt/saba-chan/docker/docker'', ''attach'', ''--sig-proxy=false'', ''mc'']
        [''PATH=/usr/bin'', ''HOME=/root'']"
proof -
  let ?a = "[''saba-docker-io'', ''mc'']"
  have len: "2 \<le> length ?a" by simp
  have run: "Cmd_Run world_ok (logs world_ok ?a)
               = ([Spawn (logs world_ok ?a), Reaped (logs world_ok ?a)], Returns None)"
    by (simp add: Cmd_Run_def logs_eq filepath_Base_fixed docker_def defaultDocker_def
        world_ok_def)
  have look: "LookPath world_ok (docker ?a) = (''/opt/saba-chan/docker/docker'', None)"
    by (simp add: world_ok_def docker_def defaultDocker_def)
  from attach_image_transfer[OF len run look] show ?thesis
    by (simp add: world_ok_def docker_def defaultDocker_def)
qed

section \<open>The order of the two stages\<close>

text \<open>
  Claim C2. Every trace of the bridge splits into a replay part followed by a rest: the
  replay part holds only replay steps (the start and the reaping of the log child), the
  rest holds none, so no run comes back to the Replay Stage, and a child is started at
  most once. If any relay step occurs, the Replay Stage is complete by then: either no
  child could be started, or the child has exited and been reaped (the wait returned).
  In particular a child that never exits keeps every relay step from happening.
\<close>
theorem replay_completes_before_relay:
  "\<exists>pre post. fst (main w a) = pre @ post
     \<and> (\<forall>e\<in>set pre. is_replay e \<and> \<not> is_relay e)
     \<and> (\<forall>e\<in>set post. \<not> is_replay e)
     \<and> length (filter is_Spawn (fst (main w a))) \<le> 1
     \<and> ((\<exists>e\<in>set post. is_relay e) \<longrightarrow>
           (pre = [Spawn (logs w a)] \<and> Start w (logs w a) \<noteq> None)
         \<or> (pre = [Spawn (logs w a), Reaped (logs w a)] \<and> Wait w (logs w a) \<noteq> Never_returns))"
proof (cases w a rule: main_cases)
  case usage
  then show ?thesis by (intro exI[of _ "[]"] exI[of _ "fst (main w a)"]) simp
next
  case (blocked t)
  from blocked(2) have "t = [Spawn (logs w a)] \<or> t = [Spawn (logs w a), Reaped (logs w a)]"
    by (rule Cmd_Run_trace)
  with blocked(3) show ?thesis by (intro exI[of _ t] exI[of _ "[]"]) auto
next
  case (not_found t r lp err)
  from not_found(2) have compl: "(t = [Spawn (logs w a)] \<and> Start w (logs w a) \<noteq> None)
      \<or> (t = [Spawn (logs w a), Reaped (logs w a)] \<and> Wait w (logs w a) \<noteq> Never_returns)"
    by (cases w "logs w a" rule: Cmd_Run_cases) auto
  with not_found(4) show ?thesis
    by (intro exI[of _ t] exI[of _ "drop (length t) (fst (main w a))"]) auto
next
  case (exec_failed t r p err)
  from exec_failed(2) have compl: "(t = [Spawn (logs w a)] \<and> Start w (logs w a) \<noteq> None)
      \<or> (t = [Spawn (logs w a), Reaped (logs w a)] \<and> Wait w (logs w a) \<noteq> Never_returns)"
    by (cases w "logs w a" rule: Cmd_Run_cases) auto
  with exec_failed(5) show ?thesis
    by (intro exI[of _ t] exI[of _ "drop (length t) (fst (main w a))"]) auto
next
  case (replaced t r p)
  from replaced(2) have compl: "(t = [Spawn (logs w a)] \<and> Start w (logs w a) \<noteq> None)
      \<or> (t = [Spawn (logs w a), Reaped (logs w a)] \<and> Wait w (logs w a) \<noteq> Never_returns)"
    by (cases w "logs w a" rule: Cmd_Run_cases) auto
  with replaced(5) show ?thesis
    by (intro exI[of _ t] exI[of _ "drop (length t) (fst (main w a))"]) auto
qed

theorem replay_completes_before_relay_witness:
  "fst (main world_ok [''saba-docker-io'', ''mc'']) =
     [Spawn (logs world_ok [''saba-docker-io'', ''mc'']),
      Reaped (logs world_ok [''saba-docker-io'', ''mc''])]
     @ [CallLookPath ''/opt/saba-chan/docker/docker'',
        CallExec ''/opt/saba-chan/docker/docker''
          [''/opt/saba-chan/docker/docker'', ''attach'', ''--sig-proxy=false'', ''mc'']
          [''PATH=/usr/bin'', ''HOME=/root'']]"
proof -
  let ?a = "[''saba-docker-io'', ''mc'']"
  have tr: "fst (main world_ok ?a) =
     [Spawn (logs world_ok ?a), Reaped (logs world_ok ?a),
      CallLookPath ''/opt/saba-chan/docker/docker'',
      CallExec ''/opt/saba-chan/docker/docker''
        [''/opt/saba-chan/docker/docker'', ''attach'', ''--sig-proxy=false'', ''mc'']
        [''PATH=/usr/bin'', ''HOME=/root'']]"
  proof -
    have run: "Cmd_Run world_ok (logs world_ok ?a)
                 = ([Spawn (logs world_ok ?a), Reaped (logs world_ok ?a)], Returns None)"
      by (simp add: Cmd_Run_def logs_eq filepath_Base_fixed docker_def defaultDocker_def
          world_ok_def)
    have look: "LookPath world_ok (docker ?a) = (''/opt/saba-chan/docker/docker'', None)"
      by (simp add: world_ok_def docker_def defaultDocker_def)
    have acc: "Exec world_ok ''/opt/saba-chan/docker/docker'' (argv ?a) (Environ world_ok) = None"
      by (simp add: world_ok_def)
    have len: "2 \<le> length ?a" by simp
    have env: "Environ world_ok = [''PATH=/usr/bin'', ''HOME=/root'']"
      by (simp add: world_ok_def)
    show ?thesis
      by (simp add: main_replaced[OF len run look acc] env argv_def docker_def
          defaultDocker_def container_def)
  qed
  from replay_completes_before_relay[of world_ok ?a]
  obtain pre post where split: "fst (main world_ok ?a) = pre @ post"
    and pre: "\<forall>e\<in>set pre. is_replay e \<and> \<not> is_relay e"
    and post: "\<forall>e\<in>set post. \<not> is_replay e"
    and fin: "(\<exists>e\<in>set post. is_relay e) \<longrightarrow>
           (pre = [Spawn (logs world_ok ?a)] \<and> Start world_ok (logs world_ok ?a) \<noteq> None)
         \<or> (pre = [Spawn (logs world_ok ?a), Reaped (logs world_ok ?a)]
              \<and> Wait world_ok (logs world_ok ?a) \<noteq> Never_returns)"
    by blast
  have "CallLookPath ''/opt/saba-chan/docker/docker'' \<in> set (fst (main world_ok ?a))"
    by (simp add: tr)
  then have "CallLookPath ''/opt/saba-chan/docker/docker'' \<in> set pre \<union> set post"
    by (simp only: split set_append)
  with pre have "CallLookPath ''/opt/saba-chan/docker/docker'' \<in> set post" by auto
  then have "\<exists>e\<in>set post. is_relay e" by (rule rev_bexI) simp
  moreover have "Start world_ok (logs world_ok ?a) = None"
    by (simp add: logs_eq filepath_Base_fixed docker_def defaultDocker_def world_ok_def)
  ultimately have "pre = [Spawn (logs world_ok ?a), Reaped (logs world_ok ?a)]"
    using fin by simp
  with split tr show ?thesis by simp
qed

section \<open>Failures\<close>

text \<open>
  Claim C3. With a container name on the command line, whatever \<^verbatim>\<open>logs.Run()\<close> returns
  (no error, a failed start because the runtime is missing, a non-zero exit because the
  container does not exist) the bridge writes nothing during the Replay Stage, does not
  exit there, and goes on to the Live Relay Stage: the next step is the lookup of the
  runtime. What follows, and how the bridge ends, is the same in every world that differs
  only in how the log command fares.
\<close>

theorem replay_failure_swallowed:
  assumes "2 \<le> length a"
    and "Cmd_Run w (logs w a) = (t, Returns r)"
  shows "(\<forall>e\<in>set t. \<not> is_Write e)
     \<and> (\<exists>rest. fst (main w a) = t @ CallLookPath (docker a) # rest
            \<and> (\<forall>e\<in>set rest. \<not> is_replay e))
     \<and> snd (main w a) \<noteq> Blocked \<and> snd (main w a) \<noteq> Exited 1
     \<and> (\<forall>s' b' t' r'.
           Cmd_Run (w\<lparr>Start := s', Wait := b'\<rparr>) (logs (w\<lparr>Start := s', Wait := b'\<rparr>) a)
             = (t', Returns r') \<longrightarrow>
             drop (length t') (fst (main (w\<lparr>Start := s', Wait := b'\<rparr>) a))
               = drop (length t) (fst (main w a))
           \<and> snd (main (w\<lparr>Start := s', Wait := b'\<rparr>) a) = snd (main w a))"
proof -
  have quiet: "\<forall>e\<in>set t. \<not> is_Write e"
    using assms(2) by (blast dest: Cmd_Run_no_write)
  obtain p e where look: "LookPath w (docker a) = (p, e)"
    by (cases "LookPath w (docker a)")
  have go: "(\<exists>rest. fst (main w a) = t @ CallLookPath (docker a) # rest
            \<and> (\<forall>e\<in>set rest. \<not> is_replay e))
     \<and> snd (main w a) \<noteq> Blocked \<and> snd (main w a) \<noteq> Exited 1"
  proof (cases e)
    case (Some err)
    from main_not_found[OF assms look[unfolded Some]] show ?thesis by simp
  next
    case None
    note found = look[unfolded None]
    show ?thesis
    proof (cases "Exec w p (argv a) (Environ w)")
      case None
      from main_replaced[OF assms found None] show ?thesis by simp
    next
      case (Some err)
      from main_exec_failed[OF assms found Some] show ?thesis by simp
    qed
  qed
  have same: "drop (length t') (fst (main (w\<lparr>Start := s', Wait := b'\<rparr>) a))
               = drop (length t) (fst (main w a))
           \<and> snd (main (w\<lparr>Start := s', Wait := b'\<rparr>) a) = snd (main w a)"
    if run': "Cmd_Run (w\<lparr>Start := s', Wait := b'\<rparr>) (logs (w\<lparr>Start := s', Wait := b'\<rparr>) a)
                = (t', Returns r')"
    for s' b' t' r'
  proof (cases e)
    case (Some err)
    note missing = look[unfolded Some]
    then have missing': "LookPath (w\<lparr>Start := s', Wait := b'\<rparr>) (docker a) = (p, Some err)"
      by simp
    from main_not_found[OF assms missing] main_not_found[OF assms(1) run' missing']
    show ?thesis by simp
  next
    case None
    note found = look[unfolded None]
    then have found': "LookPath (w\<lparr>Start := s', Wait := b'\<rparr>) (docker a) = (p, None)"
      by simp
    show ?thesis
    proof (cases "Exec w p (argv a) (Environ w)")
      case None
      then have None': "Exec (w\<lparr>Start := s', Wait := b'\<rparr>) p (argv a)
           (Environ (w\<lparr>Start := s', Wait := b'\<rparr>)) = None" by simp
      from main_replaced[OF assms found None] main_replaced[OF assms(1) run' found' None']
      show ?thesis by simp
    next
      case (Some err)
      then have Some': "Exec (w\<lparr>Start := s', Wait := b'\<rparr>) p (argv a)
           (Environ (w\<lparr>Start := s', Wait := b'\<rparr>)) = Some err" by simp
      from main_exec_failed[OF assms found Some] main_exec_failed[OF assms(1) run' found' Some']
      show ?thesis by simp
    qed
  qed
  from quiet go same show ?thesis by blast
qed

theorem replay_failure_swallowed_witness:
  "fst (main world_no_container [''saba-docker-io'', ''mc'']) =
     [Spawn (logs world_no_container [''saba-docker-io'', ''mc'']),
      Reaped (logs world_no_container [''saba-docker-io'', ''mc''])]
       @ drop 2 (fst (main world_ok [''saba-docker-io'', ''mc'']))
   \<and> hd (drop 2 (fst (main world_no_container [''saba-docker-io'', ''mc''])))
       = CallLookPath ''/opt/saba-chan/docker/docker''
   \<and> snd (main world_no_container [''saba-docker-io'', ''mc''])
       = snd (main world_ok [''saba-docker-io'', ''mc''])"
proof -
  let ?a = "[''saba-docker-io'', ''mc'']"
  let ?w = "world_no_container"
  let ?t = "[Spawn (logs ?w ?a), Reaped (logs ?w ?a)]"
  have len: "2 \<le> length ?a" by simp
  have run: "Cmd_Run ?w (logs ?w ?a) = (?t, Returns (Some ''exit status 1''))"
    by (simp add: Cmd_Run_def logs_eq filepath_Base_fixed docker_def defaultDocker_def
        world_no_container_def world_ok_def)
  have ok: "world_ok = ?w\<lparr>Start := (\<lambda>c. Cmd_Err c), Wait := (\<lambda>c. Returns None)\<rparr>"
    by (simp add: world_no_container_def world_ok_def)
  have run': "Cmd_Run world_ok (logs world_ok ?a)
                = ([Spawn (logs world_ok ?a), Reaped (logs world_ok ?a)], Returns None)"
    by (simp add: Cmd_Run_def logs_eq filepath_Base_fixed docker_def defaultDocker_def
        world_ok_def)
  from replay_failure_swallowed[OF len run]
  obtain rest where tr: "fst (main ?w ?a) = ?t @ CallLookPath (docker ?a) # rest"
    and same: "\<forall>s' b' t' r'.
           Cmd_Run (?w\<lparr>Start := s', Wait := b'\<rparr>) (logs (?w\<lparr>Start := s', Wait := b'\<rparr>) ?a)
             = (t', Returns r') \<longrightarrow>
             drop (length t') (fst (main (?w\<lparr>Start := s', Wait := b'\<rparr>) ?a))
               = drop (length ?t) (fst (main ?w ?a))
           \<and> snd (main (?w\<lparr>Start := s', Wait := b'\<rparr>) ?a) = snd (main ?w ?a)"
    by blast
  from same run'[unfolded ok] have
    "drop (length [Spawn (logs world_ok ?a), Reaped (logs world_ok ?a)]) (fst (main world_ok ?a))
       = drop (length ?t) (fst (main ?w ?a))
     \<and> snd (main world_ok ?a) = snd (main ?w ?a)"
    unfolding ok by blast
  with tr show ?thesis by (simp add: docker_def defaultDocker_def numeral_2_eq_2)
qed

text \<open>
  Claim C4. If \<^verbatim>\<open>exec.LookPath\<close> cannot resolve the runtime, the bridge writes the
  diagnostic \<^verbatim>\<open>[saba-docker-io] docker not found at <runtime>: <error>\<close> to standard
  error and exits with status 2, the RuntimeNotFound code; the run holds no image-transfer
  call.
\<close>

theorem runtime_not_found:
  assumes "2 \<le> length a"
    and "Cmd_Run w (logs w a) = (t, Returns r)"
    and "LookPath w (docker a) = (lp, Some err)"
  shows "main w a =
           (t @ [CallLookPath (docker a),
                 Write os_Stderr
                   (''[saba-docker-io] docker not found at '' @ docker a @ '': '' @ err
                      @ [CHR 0x0A])],
            Exited 2)
       \<and> (\<forall>e\<in>set (fst (main w a)). \<not> is_CallExec e)"
proof -
  note run = main_not_found[OF assms]
  have "e \<in> set t \<Longrightarrow> \<not> is_CallExec e" for e
    using Cmd_Run_trace[OF assms(2)] by auto
  with run show ?thesis by auto
qed

theorem runtime_not_found_witness:
  "main world_no_runtime [''saba-docker-io'', ''mc''] =
     ([Spawn (logs world_no_runtime [''saba-docker-io'', ''mc'']),
       CallLookPath ''/opt/saba-chan/docker/docker'',
       Write os_Stderr
         (''[saba-docker-io] docker not found at /opt/saba-chan/docker/docker: ''
            @ ''exec: '' @ [CHR 0x22] @ ''/opt/saba-chan/docker/docker'' @ [CHR 0x22]
            @ '': stat /opt/saba-chan/docker/docker: no such file or directory''
            @ [CHR 0x0A])],
      Exited 2)"
proof -
  let ?a = "[''saba-docker-io'', ''mc'']"
  let ?w = "world_no_runtime"
  have len: "2 \<le> length ?a" by simp
  have run: "Cmd_Run ?w (logs ?w ?a)
               = ([Spawn (logs ?w ?a)],
                  Returns (Some ''fork/exec /opt/saba-chan/docker/docker: no such file or directory''))"
    by (simp add: Cmd_Run_def logs_eq filepath_Base_fixed docker_def defaultDocker_def
        world_no_runtime_def world_ok_def)
  have look: "LookPath ?w (docker ?a)
               = ([], Some (''exec: '' @ [CHR 0x22] @ ''/opt/saba-chan/docker/docker'' @ [CHR 0x22]
                    @ '': stat /opt/saba-chan/docker/docker: no such file or directory''))"
    by (simp add: world_no_runtime_def world_ok_def docker_def defaultDocker_def)
  from runtime_not_found[OF len run look] show ?thesis
    by (simp add: docker_def defaultDocker_def)
qed

text \<open>
  Claim C5. If the runtime is resolved and \<^verbatim>\<open>syscall.Exec\<close> returns an error, the
  bridge writes \<^verbatim>\<open>[saba-docker-io] exec failed: <error>\<close> to standard error and exits
  with status 3, the ExecFailed code; the image transfer was called once and is not tried
  again.
\<close>

theorem exec_failed_is_fatal:
  assumes "2 \<le> length a"
    and "Cmd_Run w (logs w a) = (t, Returns r)"
    and "LookPath w (docker a) = (p, None)"
    and "Exec w p [docker a, ''attach'', ''--sig-proxy=false'', a ! 1] (Environ w) = Some err"
  shows "main w a =
           (t @ [CallLookPath (docker a),
                 CallExec p [docker a, ''attach'', ''--sig-proxy=false'', a ! 1] (Environ w),
                 Write os_Stderr (''[saba-docker-io] exec failed: '' @ err @ [CHR 0x0A])],
            Exited 3)
       \<and> length (filter is_CallExec (fst (main w a))) = 1"
proof -
  have av: "argv a = [docker a, ''attach'', ''--sig-proxy=false'', a ! 1]"
    by (simp add: argv_def container_def)
  from assms(4) have failed: "Exec w p (argv a) (Environ w) = Some err"
    by (simp add: av)
  from main_exec_failed[OF assms(1-3) failed] Cmd_Run_no_exec[OF assms(2)]
  show ?thesis by (simp add: av)
qed

theorem exec_failed_is_fatal_witness:
  "main world_exec_fails [''saba-docker-io'', ''mc'', ''docker''] =
     ([Spawn (logs world_exec_fails [''saba-docker-io'', ''mc'', ''docker'']),
       Reaped (logs world_exec_fails [''saba-docker-io'', ''mc'', ''docker'']),
       CallLookPath ''docker'',
       CallExec ''/usr/bin/docker'' [''docker'', ''attach'', ''--sig-proxy=false'', ''mc'']
         [''PATH=/usr/bin'', ''HOME=/root''],
       Write os_Stderr (''[saba-docker-io] exec failed: permission denied'' @ [CHR 0x0A])],
      Exited 3)"
proof -
  let ?a = "[''saba-docker-io'', ''mc'', ''docker'']"
  let ?w = "world_exec_fails"
  have len: "2 \<le> length ?a" by simp
  have run: "Cmd_Run ?w (logs ?w ?a) = ([Spawn (logs ?w ?a), Reaped (logs ?w ?a)], Returns None)"
    by (simp add: Cmd_Run_def logs_eq filepath_Base_fixed docker_def
        world_exec_fails_def world_ok_def)
  have look: "LookPath ?w (docker ?a) = (''/usr/bin/docker'', None)"
    by (simp add: world_exec_fails_def world_ok_def docker_def)
  have env: "Environ ?w = [''PATH=/usr/bin'', ''HOME=/root'']"
    by (simp add: world_exec_fails_def world_ok_def)
  have failed: "Exec ?w ''/usr/bin/docker''
         [docker ?a, ''attach'', ''--sig-proxy=false'', ?a ! 1] (Environ ?w)
       = Some ''permission denied''"
    by (simp add: world_exec_fails_def)
  from exec_failed_is_fatal[OF len run look failed] show ?thesis
    by (simp add: docker_def env)
qed

section \<open>The Replay Stage\<close>

text \<open>
  Claim C6. With a container name on the command line, the first thing the bridge does
  is start one command: its argument vector is the runtime followed by
  \<^verbatim>\<open>logs --tail 200 --timestamps\<close> and the container name, \<^verbatim>\<open>200\<close> being the constant
  \<^verbatim>\<open>initialLogTail\<close>; its standard output and its standard error are both the standard
  output of the bridge, its standard input is left unset. The file it is run from is the
  runtime as given, or, for a runtime given as a bare name, the path \<^verbatim>\<open>exec.Command\<close>
  found for it. No other command is started.
\<close>

theorem replay_log_invocation:
  assumes "2 \<le> length a"
  shows "initialLogTail = ''200''
     \<and> (\<exists>c rest. fst (main w a) = Spawn c # rest
          \<and> Cmd_Args c = docker a # [''logs'', ''--tail'', ''200'', ''--timestamps'', a ! 1]
          \<and> Cmd_Stdin c = None
          \<and> Cmd_Stdout c = Some os_Stdout
          \<and> Cmd_Stderr c = Some os_Stdout
          \<and> Cmd_Path c =
                (if filepath_Base (docker a) = docker a \<and> fst (LookPath w (docker a)) \<noteq> []
                 then fst (LookPath w (docker a)) else docker a)
          \<and> Cmd_Err c =
                (if filepath_Base (docker a) = docker a then snd (LookPath w (docker a))
                 else None)
          \<and> (\<forall>e\<in>set rest. \<not> is_Spawn e))"
proof -
  have "\<exists>rest. fst (main w a) = Spawn (logs w a) # rest \<and> (\<forall>e\<in>set rest. \<not> is_Spawn e)"
  proof (cases w a rule: main_cases)
    case usage
    with assms show ?thesis by simp
  next
    case (blocked t)
    with Cmd_Run_trace[OF blocked(2)] show ?thesis by auto
  next
    case (not_found t r lp err)
    with Cmd_Run_trace[OF not_found(2)] show ?thesis by auto
  next
    case (exec_failed t r p err)
    with Cmd_Run_trace[OF exec_failed(2)] show ?thesis by auto
  next
    case (replaced t r p)
    with Cmd_Run_trace[OF replaced(2)] show ?thesis by auto
  qed
  then obtain rest where tr: "fst (main w a) = Spawn (logs w a) # rest"
    and one: "\<forall>e\<in>set rest. \<not> is_Spawn e"
    by blast
  have fields:
    "Cmd_Args (logs w a) = docker a # [''logs'', ''--tail'', ''200'', ''--timestamps'', a ! 1]"
    "Cmd_Stdin (logs w a) = None"
    "Cmd_Stdout (logs w a) = Some os_Stdout"
    "Cmd_Stderr (logs w a) = Some os_Stdout"
    "Cmd_Path (logs w a) =
       (if filepath_Base (docker a) = docker a \<and> fst (LookPath w (docker a)) \<noteq> []
        then fst (LookPath w (docker a)) else docker a)"
    "Cmd_Err (logs w a) =
       (if filepath_Base (docker a) = docker a then snd (LookPath w (docker a)) else None)"
    by (simp_all add: logs_eq)
  have "initialLogTail = ''200''" by (simp add: initialLogTail_def)
  with tr one fields show ?thesis by blast
qed

theorem replay_log_invocation_witness:
  "hd (fst (main world_ok [''saba-docker-io'', ''mc''])) =
     Spawn \<lparr>Cmd_Path = ''/opt/saba-chan/docker/docker'',
            Cmd_Args = [''/opt/saba-chan/docker/docker'', ''logs'', ''--tail'', ''200'',
                        ''--timestamps'', ''mc''],
            Cmd_Stdin = None, Cmd_Stdout = Some os_Stdout, Cmd_Stderr = Some os_Stdout,
            Cmd_Err = None\<rparr>
   \<and> hd (fst (main world_ok [''saba-docker-io'', ''mc'', ''docker''])) =
     Spawn \<lparr>Cmd_Path = ''/usr/bin/docker'',
            Cmd_Args = [''docker'', ''logs'', ''--tail'', ''200'', ''--timestamps'', ''mc''],
            Cmd_Stdin = None, Cmd_Stdout = Some os_Stdout, Cmd_Stderr = Some os_Stdout,
            Cmd_Err = None\<rparr>"
proof -
  let ?a = "[''saba-docker-io'', ''mc'']"
  let ?b = "[''saba-docker-io'', ''mc'', ''docker'']"
  have la: "2 \<le> length ?a" and lb: "2 \<le> length ?b" by simp_all
  have look: "LookPath world_ok ''/opt/saba-chan/docker/docker'' = (''/opt/saba-chan/docker/docker'', None)"
    "LookPath world_ok ''docker'' = (''/usr/bin/docker'', None)"
    by (simp_all add: world_ok_def)
  from replay_log_invocation[OF la, of world_ok]
  obtain c rest where a: "fst (main world_ok ?a) = Spawn c # rest"
    "Cmd_Args c = [''/opt/saba-chan/docker/docker'', ''logs'', ''--tail'', ''200'',
                   ''--timestamps'', ''mc'']"
    "Cmd_Stdin c = None" "Cmd_Stdout c = Some os_Stdout" "Cmd_Stderr c = Some os_Stdout"
    "Cmd_Path c = ''/opt/saba-chan/docker/docker''" "Cmd_Err c = None"
    by (auto simp: docker_def defaultDocker_def filepath_Base_fixed look)
  from replay_log_invocation[OF lb, of world_ok]
  obtain d rest' where b: "fst (main world_ok ?b) = Spawn d # rest'"
    "Cmd_Args d = [''docker'', ''logs'', ''--tail'', ''200'', ''--timestamps'', ''mc'']"
    "Cmd_Stdin d = None" "Cmd_Stdout d = Some os_Stdout" "Cmd_Stderr d = Some os_Stdout"
    "Cmd_Path d = ''/usr/bin/docker''" "Cmd_Err d = None"
    by (auto simp: docker_def filepath_Base_fixed look)
  from a b show ?thesis by (cases c; cases d) simp
qed

section \<open>The command line\<close>

text \<open>
  \<^verbatim>\<open>main\<close> reads \<^verbatim>\<open>os.Args\<close> through its length, \<^verbatim>\<open>os.Args[1]\<close> and
  \<^verbatim>\<open>os.Args[2]\<close> only.
\<close>

lemma main_arg0: "main w (x # xs) = main w (y # xs)"
proof -
  have d: "docker (x # xs) = docker (y # xs)" by (simp add: docker_def)
  have c: "container (x # xs) = container (y # xs)" by (simp add: container_def)
  have l: "logs w (x # xs) = logs w (y # xs)" by (simp add: logs_def d c)
  have v: "argv (x # xs) = argv (y # xs)" by (simp add: argv_def d c)
  show ?thesis unfolding main_def d l v by simp
qed

lemma main_take3: "main w a = main w (take 3 a)"
proof (cases "length a < 2")
  case True
  then show ?thesis by simp
next
  case False
  then have d: "docker (take 3 a) = docker a" by (auto simp: docker_def)
  from False have c: "container (take 3 a) = container a" by (simp add: container_def)
  have l: "logs w (take 3 a) = logs w a" by (simp add: logs_def d c)
  have v: "argv (take 3 a) = argv a" by (simp add: argv_def d c)
  from False have n: "\<not> length (take 3 a) < 2" by simp
  show ?thesis unfolding main_def d l v using False n by simp
qed

text \<open>
  Claim C7. With \<^verbatim>\<open>runtime_path\<close> omitted the runtime is the default path
  \<^verbatim>\<open>/opt/saba-chan/docker/docker\<close> as it stands, and with \<^verbatim>\<open>runtime_path\<close> supplied it
  is that argument. Both stages use this one string: it is the command name of the log
  invocation (the head of its argument vector, and what \<^verbatim>\<open>exec.Command\<close> takes the file
  to run from), the name that is looked up for the attach invocation, and the first
  element of the attach argument vector. The default path has a directory in it, so the
  log command is run from that very path.
\<close>

theorem runtime_path_default_or_supplied:
  assumes "2 \<le> length a"
    and "rt = (if length a = 2 then ''/opt/saba-chan/docker/docker'' else a ! 2)"
  shows "(\<exists>c rest. fst (main w a) = Spawn c # rest
            \<and> Cmd_Args c = [rt, ''logs'', ''--tail'', ''200'', ''--timestamps'', a ! 1]
            \<and> Cmd_Path c =
                 (if filepath_Base rt = rt \<and> fst (LookPath w rt) \<noteq> []
                  then fst (LookPath w rt) else rt)
            \<and> (length a = 2 \<longrightarrow> Cmd_Path c = ''/opt/saba-chan/docker/docker''))
     \<and> (\<forall>f. CallLookPath f \<in> set (fst (main w a)) \<longrightarrow> f = rt)
     \<and> (\<forall>p av env. CallExec p av env \<in> set (fst (main w a)) \<longrightarrow>
           LookPath w rt = (p, None) \<and> av = [rt, ''attach'', ''--sig-proxy=false'', a ! 1])"
proof -
  have rt: "docker a = rt"
    using assms by (auto simp: docker_def defaultDocker_def)
  have av: "argv a = [rt, ''attach'', ''--sig-proxy=false'', a ! 1]"
    by (simp add: argv_def container_def rt)
  have args: "Cmd_Args (logs w a) = [rt, ''logs'', ''--tail'', ''200'', ''--timestamps'', a ! 1]"
    by (simp add: logs_eq rt)
  have path: "Cmd_Path (logs w a) =
      (if filepath_Base rt = rt \<and> fst (LookPath w rt) \<noteq> [] then fst (LookPath w rt) else rt)"
    by (simp add: logs_eq rt)
  have dflt: "Cmd_Path (logs w a) = ''/opt/saba-chan/docker/docker''" if "length a = 2"
  proof -
    from that assms(2) have "rt = ''/opt/saba-chan/docker/docker''" by simp
    then show ?thesis by (simp add: path filepath_Base_fixed)
  qed
  have tr: "(\<exists>rest. fst (main w a) = Spawn (logs w a) # rest)
     \<and> (\<forall>f. CallLookPath f \<in> set (fst (main w a)) \<longrightarrow> f = docker a)
     \<and> (\<forall>p av env. CallExec p av env \<in> set (fst (main w a)) \<longrightarrow>
           LookPath w (docker a) = (p, None) \<and> av = argv a)"
  proof (cases w a rule: main_cases)
    case usage
    with assms(1) show ?thesis by simp
  next
    case (blocked t)
    with Cmd_Run_trace[OF blocked(2)] show ?thesis by auto
  next
    case (not_found t r lp err)
    with Cmd_Run_trace[OF not_found(2)] show ?thesis by auto
  next
    case (exec_failed t r p err)
    with Cmd_Run_trace[OF exec_failed(2)] show ?thesis by auto
  next
    case (replaced t r p)
    with Cmd_Run_trace[OF replaced(2)] show ?thesis by auto
  qed
  then obtain rest where first: "fst (main w a) = Spawn (logs w a) # rest" by blast
  from first args path dflt have
    "\<exists>c rest. fst (main w a) = Spawn c # rest
            \<and> Cmd_Args c = [rt, ''logs'', ''--tail'', ''200'', ''--timestamps'', a ! 1]
            \<and> Cmd_Path c =
                 (if filepath_Base rt = rt \<and> fst (LookPath w rt) \<noteq> []
                  then fst (LookPath w rt) else rt)
            \<and> (length a = 2 \<longrightarrow> Cmd_Path c = ''/opt/saba-chan/docker/docker'')"
    by blast
  with tr show ?thesis unfolding rt av by blast
qed

theorem runtime_path_default_or_supplied_witness:
  "map (\<lambda>e. case e of Spawn c \<Rightarrow> Cmd_Args c | CallLookPath f \<Rightarrow> [f]
                     | CallExec p av env \<Rightarrow> p # av | _ \<Rightarrow> [])
       (fst (main world_ok [''saba-docker-io'', ''mc''])) =
     [[''/opt/saba-chan/docker/docker'', ''logs'', ''--tail'', ''200'', ''--timestamps'', ''mc''],
      [],
      [''/opt/saba-chan/docker/docker''],
      [''/opt/saba-chan/docker/docker'',
       ''/opt/saba-chan/docker/docker'', ''attach'', ''--sig-proxy=false'', ''mc'']]
   \<and> map (\<lambda>e. case e of Spawn c \<Rightarrow> Cmd_Args c | CallLookPath f \<Rightarrow> [f]
                     | CallExec p av env \<Rightarrow> p # av | _ \<Rightarrow> [])
       (fst (main world_ok [''saba-docker-io'', ''mc'', ''docker''])) =
     [[''docker'', ''logs'', ''--tail'', ''200'', ''--timestamps'', ''mc''],
      [],
      [''docker''],
      [''/usr/bin/docker'', ''docker'', ''attach'', ''--sig-proxy=false'', ''mc'']]"
proof -
  let ?a = "[''saba-docker-io'', ''mc'']"
  let ?b = "[''saba-docker-io'', ''mc'', ''docker'']"
  have la: "2 \<le> length ?a" and lb: "2 \<le> length ?b" by simp_all
  have env: "Environ world_ok = [''PATH=/usr/bin'', ''HOME=/root'']"
    and acc: "\<And>p v e. Exec world_ok p v e = None"
    by (simp_all add: world_ok_def)
  have ra: "Cmd_Run world_ok (logs world_ok ?a)
              = ([Spawn (logs world_ok ?a), Reaped (logs world_ok ?a)], Returns None)"
    by (simp add: Cmd_Run_def logs_eq filepath_Base_fixed docker_def defaultDocker_def
        world_ok_def)
  have rb: "Cmd_Run world_ok (logs world_ok ?b)
              = ([Spawn (logs world_ok ?b), Reaped (logs world_ok ?b)], Returns None)"
    by (simp add: Cmd_Run_def logs_eq filepath_Base_fixed docker_def world_ok_def)
  have ka: "LookPath world_ok (docker ?a) = (''/opt/saba-chan/docker/docker'', None)"
    by (simp add: world_ok_def docker_def defaultDocker_def)
  have kb: "LookPath world_ok (docker ?b) = (''/usr/bin/docker'', None)"
    by (simp add: world_ok_def docker_def)
  have ta: "fst (main world_ok ?a) =
     [Spawn (logs world_ok ?a), Reaped (logs world_ok ?a), CallLookPath (docker ?a),
      CallExec ''/opt/saba-chan/docker/docker'' (argv ?a) (Environ world_ok)]"
    by (simp add: main_replaced[OF la ra ka acc])
  have tb: "fst (main world_ok ?b) =
     [Spawn (logs world_ok ?b), Reaped (logs world_ok ?b), CallLookPath (docker ?b),
      CallExec ''/usr/bin/docker'' (argv ?b) (Environ world_ok)]"
    by (simp add: main_replaced[OF lb rb kb acc])
  from runtime_path_default_or_supplied[OF la refl, of world_ok]
       runtime_path_default_or_supplied[OF lb refl, of world_ok]
  show ?thesis
    by (auto simp: ta tb)
qed

text \<open>
  Claim C8. Without a container name (\<^verbatim>\<open>len(os.Args) < 2\<close>) the bridge writes the usage
  line to standard error and exits with status 1, having done nothing else. A run that
  ends on an unresolved runtime and a run that ends on a failed image transfer exit with
  two further statuses, and the three are pairwise distinct.
\<close>

theorem usage_error_and_distinct_exit_codes:
  assumes "length a1 < 2"
    and "2 \<le> length a2"
    and "Cmd_Run w2 (logs w2 a2) = (t2, Returns r2)"
    and "LookPath w2 (docker a2) = (lp2, Some e2)"
    and "2 \<le> length a3"
    and "Cmd_Run w3 (logs w3 a3) = (t3, Returns r3)"
    and "LookPath w3 (docker a3) = (p3, None)"
    and "Exec w3 p3 [docker a3, ''attach'', ''--sig-proxy=false'', a3 ! 1] (Environ w3) = Some e3"
  shows "main w1 a1 =
           ([Write os_Stderr
               (''Usage: saba-docker-io <container_name> [docker_path]'' @ [CHR 0x0A])],
            Exited 1)
       \<and> (\<exists>c1 c2 c3.
             snd (main w1 a1) = Exited c1
           \<and> snd (main w2 a2) = Exited c2
           \<and> snd (main w3 a3) = Exited c3
           \<and> c1 \<noteq> c2 \<and> c1 \<noteq> c3 \<and> c2 \<noteq> c3)"
proof -
  have av: "argv a3 = [docker a3, ''attach'', ''--sig-proxy=false'', a3 ! 1]"
    by (simp add: argv_def container_def)
  from assms(8) have failed: "Exec w3 p3 (argv a3) (Environ w3) = Some e3"
    by (simp add: av)
  note r1 = main_usage[OF assms(1), of w1]
  note r2 = main_not_found[OF assms(2-4)]
  note r3 = main_exec_failed[OF assms(5-7) failed]
  have "snd (main w1 a1) = Exited 1" "snd (main w2 a2) = Exited 2" "snd (main w3 a3) = Exited 3"
    by (simp_all add: r1 r2 r3)
  moreover have "(1::int) \<noteq> 2" "(1::int) \<noteq> 3" "(2::int) \<noteq> 3" by simp_all
  ultimately have "\<exists>c1 c2 c3.
             snd (main w1 a1) = Exited c1
           \<and> snd (main w2 a2) = Exited c2
           \<and> snd (main w3 a3) = Exited c3
           \<and> c1 \<noteq> c2 \<and> c1 \<noteq> c3 \<and> c2 \<noteq> c3"
    by blast
  with r1 show ?thesis by blast
qed

theorem usage_error_and_distinct_exit_codes_witness:
  "main world_ok [''saba-docker-io''] =
     ([Write os_Stderr (''Usage: saba-docker-io <container_name> [docker_path]'' @ [CHR 0x0A])],
      Exited 1)
   \<and> snd (main world_no_runtime [''saba-docker-io'', ''mc'']) = Exited 2
   \<and> snd (main world_exec_fails [''saba-docker-io'', ''mc'']) = Exited 3"
proof -
  let ?a1 = "[''saba-docker-io'']"
  let ?a = "[''saba-docker-io'', ''mc'']"
  let ?w2 = "world_no_runtime"
  let ?w3 = "world_exec_fails"
  have l1: "length ?a1 < 2" and l2: "2 \<le> length ?a" by simp_all
  have run2: "Cmd_Run ?w2 (logs ?w2 ?a)
               = ([Spawn (logs ?w2 ?a)],
                  Returns (Some ''fork/exec /opt/saba-chan/docker/docker: no such file or directory''))"
    by (simp add: Cmd_Run_def logs_eq filepath_Base_fixed docker_def defaultDocker_def
        world_no_runtime_def world_ok_def)
  have look2: "LookPath ?w2 (docker ?a)
               = ([], Some (''exec: '' @ [CHR 0x22] @ ''/opt/saba-chan/docker/docker'' @ [CHR 0x22]
                    @ '': stat /opt/saba-chan/docker/docker: no such file or directory''))"
    by (simp add: world_no_runtime_def world_ok_def docker_def defaultDocker_def)
  have run3: "Cmd_Run ?w3 (logs ?w3 ?a) = ([Spawn (logs ?w3 ?a), Reaped (logs ?w3 ?a)], Returns None)"
    by (simp add: Cmd_Run_def logs_eq filepath_Base_fixed docker_def defaultDocker_def
        world_exec_fails_def world_ok_def)
  have look3: "LookPath ?w3 (docker ?a) = (''/opt/saba-chan/docker/docker'', None)"
    by (simp add: world_exec_fails_def world_ok_def docker_def defaultDocker_def)
  have failed: "Exec ?w3 ''/opt/saba-chan/docker/docker''
         [docker ?a, ''attach'', ''--sig-proxy=false'', ?a ! 1] (Environ ?w3)
       = Some ''permission denied''"
    by (simp add: world_exec_fails_def)
  have failed': "Exec ?w3 ''/opt/saba-chan/docker/docker'' (argv ?a) (Environ ?w3)
       = Some ''permission denied''"
    by (simp add: world_exec_fails_def)
  have c2: "snd (main ?w2 ?a) = Exited 2"
    by (simp add: main_not_found[OF l2 run2 look2])
  have c3: "snd (main ?w3 ?a) = Exited 3"
    by (simp add: main_exec_failed[OF l2 run3 look3 failed'])
  from usage_error_and_distinct_exit_codes[OF l1 l2 run2 look2 l2 run3 look3 failed, of world_ok]
  show ?thesis by (simp add: c2 c3)
qed

text \<open>
  Claim C9, as the code has it. The file handed to \<^verbatim>\<open>syscall.Exec\<close> is the path
  \<^verbatim>\<open>exec.LookPath\<close> returned, whatever that path is, while the first element of the
  argument vector is the runtime string as given on the command line (or the default).
  So for a runtime given as a bare name (no slash in it) that the lookup resolves to an
  absolute path, \<^verbatim>\<open>argv[0]\<close> of the new image is not the path of the file that is
  executed. The path returned need not be absolute, as the run after this theorem shows.
\<close>

theorem exec_path_and_argv0:
  assumes "CallExec p av env \<in> set (fst (main w a))"
  shows "LookPath w (docker a) = (p, None)
       \<and> av \<noteq> [] \<and> hd av = docker a
       \<and> (hd av = p \<longleftrightarrow> p = docker a)
       \<and> (CHR ''/'' \<notin> set (docker a) \<and> filepath_IsAbs p \<longrightarrow> hd av \<noteq> p)"
proof -
  have "LookPath w (docker a) = (p, None) \<and> av = argv a"
  proof (cases w a rule: main_cases)
    case usage
    with assms show ?thesis by simp
  next
    case (blocked t)
    with Cmd_Run_trace[OF blocked(2)] assms show ?thesis by auto
  next
    case (not_found t r lp err)
    with Cmd_Run_trace[OF not_found(2)] assms show ?thesis by auto
  next
    case (exec_failed t r p' err)
    with Cmd_Run_trace[OF exec_failed(2)] assms show ?thesis by auto
  next
    case (replaced t r p')
    with Cmd_Run_trace[OF replaced(2)] assms show ?thesis by auto
  qed
  moreover have "p \<noteq> docker a" if "CHR ''/'' \<notin> set (docker a)" "filepath_IsAbs p"
  proof -
    from that(2) obtain q where "p = CHR ''/'' # q"
      by (cases p) (simp_all add: filepath_IsAbs_def)
    then have "CHR ''/'' \<in> set p" by simp
    with that(1) show ?thesis by blast
  qed
  ultimately show ?thesis by (auto simp: argv_def)
qed

theorem exec_path_and_argv0_witness:
  "CallExec ''/usr/bin/docker'' [''docker'', ''attach'', ''--sig-proxy=false'', ''mc'']
      [''PATH=/usr/bin'', ''HOME=/root'']
     \<in> set (fst (main world_ok [''saba-docker-io'', ''mc'', ''docker'']))
   \<and> LookPath world_ok ''docker'' = (''/usr/bin/docker'', None)
   \<and> filepath_IsAbs ''/usr/bin/docker''
   \<and> hd [''docker'', ''attach'', ''--sig-proxy=false'', ''mc''] \<noteq> ''/usr/bin/docker''"
proof -
  let ?b = "[''saba-docker-io'', ''mc'', ''docker'']"
  have lb: "2 \<le> length ?b" by simp
  have rb: "Cmd_Run world_ok (logs world_ok ?b)
              = ([Spawn (logs world_ok ?b), Reaped (logs world_ok ?b)], Returns None)"
    by (simp add: Cmd_Run_def logs_eq filepath_Base_fixed docker_def world_ok_def)
  have kb: "LookPath world_ok (docker ?b) = (''/usr/bin/docker'', None)"
    by (simp add: world_ok_def docker_def)
  have acc: "Exec world_ok ''/usr/bin/docker'' (argv ?b) (Environ world_ok) = None"
    by (simp add: world_ok_def)
  have env: "Environ world_ok = [''PATH=/usr/bin'', ''HOME=/root'']"
    by (simp add: world_ok_def)
  have inb: "CallExec ''/usr/bin/docker'' [''docker'', ''attach'', ''--sig-proxy=false'', ''mc'']
      [''PATH=/usr/bin'', ''HOME=/root''] \<in> set (fst (main world_ok ?b))"
    by (simp add: main_replaced[OF lb rb kb acc] env argv_def docker_def container_def)
  have abs: "filepath_IsAbs ''/usr/bin/docker''" by (simp add: filepath_IsAbs_def)
  from exec_path_and_argv0[OF inb] inb abs show ?thesis
    by (simp add: docker_def)
qed

text \<open>
  Claim C9 as the specification words it calls the executed file the resolved absolute
  path. It is not always one. Started with the runtime path \<^verbatim>\<open>./docker\<close> in the
  directory that holds the runtime, the lookup gives \<^verbatim>\<open>./docker\<close> back unchanged, and
  the bridge executes that relative path, with the same string as \<^verbatim>\<open>argv[0]\<close>.
\<close>

theorem exec_path_not_absolute_counterexample:
  "snd (main world_cwd [''saba-docker-io'', ''mc'', ''./docker'']) =
     Replaced ''./docker'' [''./docker'', ''attach'', ''--sig-proxy=false'', ''mc'']
       [''PATH=/usr/bin'', ''HOME=/root'']
   \<and> \<not> filepath_IsAbs ''./docker''"
proof -
  let ?b = "[''saba-docker-io'', ''mc'', ''./docker'']"
  have lb: "2 \<le> length ?b" by simp
  have rb: "Cmd_Run world_cwd (logs world_cwd ?b)
              = ([Spawn (logs world_cwd ?b), Reaped (logs world_cwd ?b)], Returns None)"
    by (simp add: Cmd_Run_def logs_eq filepath_Base_fixed docker_def world_cwd_def world_ok_def)
  have kb: "LookPath world_cwd (docker ?b) = (''./docker'', None)"
    by (simp add: world_cwd_def docker_def)
  have acc: "Exec world_cwd ''./docker'' (argv ?b) (Environ world_cwd) = None"
    by (simp add: world_cwd_def world_ok_def)
  have env: "Environ world_cwd = [''PATH=/usr/bin'', ''HOME=/root'']"
    by (simp add: world_cwd_def world_ok_def)
  show ?thesis
    by (simp add: main_replaced[OF lb rb kb acc] env argv_def docker_def container_def
        filepath_IsAbs_def)
qed

text \<open>
  Claim C10. Two invocations whose command lines agree on the container name and on the
  runtime path (both given and equal, or both omitted) behave the same in every world:
  the same calls, the same writes, the same end. Arguments after the second are not read,
  so a command line can be cut after them without any change, and so can the program
  name be changed.
\<close>

theorem extra_arguments_ignored:
  assumes "take 2 (drop 1 a) = take 2 (drop 1 b)"
  shows "main w a = main w b \<and> main w a = main w (take 3 a)"
proof -
  have cut: "main w c = main w (''saba-docker-io'' # take 2 (drop 1 c))" for c
  proof (cases c)
    case Nil
    then show ?thesis by (simp add: main_def)
  next
    case (Cons x xs)
    have "main w (x # xs) = main w (take 3 (x # xs))" by (rule main_take3)
    also have "take 3 (x # xs) = x # take 2 xs" by (simp add: take_Cons')
    also have "main w (x # take 2 xs) = main w (''saba-docker-io'' # take 2 xs)"
      by (rule main_arg0)
    finally show ?thesis using Cons by simp
  qed
  have "main w a = main w (''saba-docker-io'' # take 2 (drop 1 a))" by (rule cut)
  also have "\<dots> = main w (''saba-docker-io'' # take 2 (drop 1 b))" by (simp only: assms)
  also have "\<dots> = main w b" by (rule cut[symmetric])
  finally have "main w a = main w b" .
  with main_take3[of w a] show ?thesis by simp
qed

theorem extra_arguments_ignored_witness:
  "main world_ok [''saba-docker-io'', ''mc'', ''docker'', ''--privileged'', ''rm -rf'']
     = main world_ok [''/opt/saba-chan/docker/saba-docker-io'', ''mc'', ''docker'']"
proof -
  have "take 2 (drop 1 [''saba-docker-io'', ''mc'', ''docker'', ''--privileged'', ''rm -rf''])
      = take 2 (drop 1 [''/opt/saba-chan/docker/saba-docker-io'', ''mc'', ''docker''])"
    by simp
  from extra_arguments_ignored[OF this, of world_ok] show ?thesis by (rule conjunct1)
qed

end
